theory Spec2Isabelle
  imports Main "HOL-Library.Word" "HOL-Library.Signed_Division"
begin

unbundle bit_operations_syntax

section \<open>Field index (index/index.go)\<close>

subsection \<open>Constants, errors and data\<close>

type_synonym byte = "8 word"
type_synonym uint32 = "32 word"
type_synonym uint64 = "64 word"

text \<open>The error values of the packages index and kadiyadb and of the wire codec,
  the errors of the io package that the code tests for, an opaque failure of an
  external call, and the run-time panics of Go that the code can raise.\<close>

datatype error =
    ErrWrite | ErrLoad | ErrROnly | ErrNoWild | ErrNoItem | ErrExists
  | EOF | ErrUnexpectedEOF | ErrShortWrite | ErrExternal
  | ErrDurRes | ErrFuture | ErrRWEpoch | ErrRange | ErrNotExist
  | ErrWireType | ErrInvalidLengthProtocol
  | PanicIndexOutOfRange | PanicSliceBounds | PanicDivideByZero | PanicMakeSlice
  | PanicCloseOfClosedChannel

definition PreallocSize :: int where
  "PreallocSize = 1024 * 1024 * 25"

definition PreallocThresh :: int where
  "PreallocThresh = 1024 * 1024 * 5"

definition ItemHeaderSize :: int where
  "ItemHeaderSize = 4"

definition NoValue :: uint32 where
  "NoValue = NOT 0"

datatype Item = Item (Fields: "string list") (Val: uint32)

text \<open>A node embeds its item and owns its children. The Go map of children is an
  association list: lookup is \<open>map_of\<close>, a new key goes to the end, and the order of
  the list stands for the (unspecified) iteration order of the Go map.\<close>

datatype node = Node (item: Item) (children: "(string \<times> node) list")

fun put_child :: "string \<Rightarrow> node \<Rightarrow> (string \<times> node) list \<Rightarrow> (string \<times> node) list" where
  "put_child k v [] = [(k, v)]"
| "put_child k v ((k', v') # cs) =
     (if k = k' then (k, v) # cs else (k', v') # put_child k v cs)"

record Metrics =
  PutOps :: int
  GetOps :: int
  OneOps :: int
  Nodes :: int
  Items :: int

text \<open>Modelled from the spec: the memory map of package utils/mmap, whose source is
  not part of the repository files at hand. It is a zero-filled byte buffer of the
  mapped size with one cursor shared by Read and Write; Grow appends zero bytes.
  The two flags stand for a failure of the operating system under Write and Grow.\<close>

record Map =
  mbytes :: "byte list"
  moff :: nat
  wfail :: bool
  gfail :: bool

definition Map_Size :: "Map \<Rightarrow> int" where
  "Map_Size m = int (length (mbytes m))"



definition Map_Write :: "Map \<Rightarrow> byte list \<Rightarrow> (nat \<times> error option) \<times> Map" where
  "Map_Write m p =
     (if wfail m then ((0, Some ErrExternal), m)
      else let k = min (length p) (length (mbytes m) - moff m);
               m' = m\<lparr>mbytes := take (moff m) (mbytes m) @ take k p
                                   @ drop (moff m + k) (mbytes m),
                       moff := moff m + k\<rparr>
           in ((k, if k < length p then Some ErrShortWrite else None), m'))"

definition Map_Grow :: "Map \<Rightarrow> int \<Rightarrow> error option \<times> Map" where
  "Map_Grow m n =
     (if gfail m then (Some ErrExternal, m)
      else (None, m\<lparr>mbytes := mbytes m @ replicate (nat n) 0\<rparr>))"

record index =
  ROnly :: bool
  rootNode :: node
  mmapFile :: Map
  dataSize :: int
  allocating :: bool
  metrics :: Metrics

subsection \<open>One\<close>

fun walk :: "node \<Rightarrow> string list \<Rightarrow> error + node" where
  "walk nd [] = Inr nd"
| "walk nd (v # vs) =
     (if v = [] then Inl ErrNoWild
      else case map_of (children nd) v of
             None \<Rightarrow> Inl ErrNoItem
           | Some c \<Rightarrow> walk c vs)"

definition One :: "index \<Rightarrow> string list \<Rightarrow> (error + Item) \<times> index" where
  "One idx flds =
     (case walk (rootNode idx) flds of
        Inl e \<Rightarrow> (Inl e, idx)
      | Inr nd \<Rightarrow>
          if Val (item nd) = NoValue then (Inl ErrNoItem, idx)
          else (Inr (item nd),
                idx\<lparr>metrics := (metrics idx)\<lparr>OneOps := OneOps (metrics idx) + 1\<rparr>\<rparr>))"

subsection \<open>Get\<close>

fun find :: "node \<Rightarrow> Item list" where
  "find (Node it cs) =
     (if Val it \<noteq> NoValue then [it] else []) @ concat (map (\<lambda>c. find (snd c)) cs)"

text \<open>The first loop of Get: descend along the non-empty fields; at the first empty
  field look for a non-empty field at or after it and stop. \<open>None\<close> is the early
  return with no items when a child is missing.\<close>

fun get_descend :: "node \<Rightarrow> string list \<Rightarrow> (node \<times> bool) option" where
  "get_descend root [] = Some (root, False)"
| "get_descend root (v # vs) =
     (if v = [] then Some (root, list_ex (\<lambda>f. f \<noteq> []) (v # vs))
      else case map_of (children root) v of
             None \<Rightarrow> None
           | Some c \<Rightarrow> get_descend c vs)"

text \<open>The inner loop of the filter, \<open>for j := range item.Fields\<close>, from index \<open>j\<close>
  on: \<open>fields[j]\<close> is read first, and Go panics when \<open>j\<close> is not below
  \<open>len(fields)\<close>.\<close>

fun filter_item :: "string list \<Rightarrow> string list \<Rightarrow> nat \<Rightarrow> error + bool" where
  "filter_item flds [] j = Inr True"
| "filter_item flds (f # fs) j =
     (if length flds \<le> j then Inl PanicIndexOutOfRange
      else if flds ! j \<noteq> [] \<and> flds ! j \<noteq> f then Inr False
      else filter_item flds fs (Suc j))"

fun filter_items :: "string list \<Rightarrow> Item list \<Rightarrow> error + Item list" where
  "filter_items flds [] = Inr []"
| "filter_items flds (it # its) =
     (case filter_item flds (Fields it) 0 of
        Inl e \<Rightarrow> Inl e
      | Inr keep \<Rightarrow>
          (case filter_items flds its of
             Inl e \<Rightarrow> Inl e
           | Inr rest \<Rightarrow> Inr (if keep then it # rest else rest)))"

definition bump_GetOps :: "index \<Rightarrow> index" where
  "bump_GetOps idx = idx\<lparr>metrics := (metrics idx)\<lparr>GetOps := GetOps (metrics idx) + 1\<rparr>\<rparr>"

definition Get :: "index \<Rightarrow> string list \<Rightarrow> (error + Item list) \<times> index" where
  "Get idx flds =
     (case get_descend (rootNode idx) flds of
        None \<Rightarrow> (Inr [], bump_GetOps idx)
      | Some (root, needsFilter) \<Rightarrow>
          let items = find root in
          if \<not> needsFilter then (Inr items, bump_GetOps idx)
          else (case filter_items flds items of
                  Inl e \<Rightarrow> (Inl e, idx)
                | Inr filtered \<Rightarrow> (Inr filtered, bump_GetOps idx)))"

subsection \<open>add\<close>

text \<open>The walk of add below \<open>root\<close>: \<open>pre\<close> holds the fields already passed, so that
  \<open>pre @ [field]\<close> is \<open>nd.Fields[0 : i+1]\<close>. The second component counts the nodes
  created (the increments of the Nodes metric).\<close>

fun add_walk :: "string list \<Rightarrow> string list \<Rightarrow> node \<Rightarrow> node \<Rightarrow> node \<times> int" where
  "add_walk pre [] nd root = (root, 0)"
| "add_walk pre [field] nd root =
     (case map_of (children root) field of
        Some leaf \<Rightarrow>
          (Node (item root)
             (put_child field
                (Node (Item (Fields (item leaf)) (Val (item nd))) (children leaf))
                (children root)), 0)
      | None \<Rightarrow> (Node (item root) (put_child field nd (children root)), 1))"
| "add_walk pre (field # fs) nd root =
     (let (newRoot, c0) =
            (case map_of (children root) field of
               Some n \<Rightarrow> (n, 0)
             | None \<Rightarrow> (Node (Item (pre @ [field]) NoValue) [], 1));
          (sub, c) = add_walk (pre @ [field]) fs nd newRoot
      in (Node (item root) (put_child field sub (children root)), c0 + c))"

definition add :: "index \<Rightarrow> node \<Rightarrow> error option \<times> index" where
  "add idx nd =
     (if Fields (item nd) = [] then (Some PanicSliceBounds, idx)
      else let (root', created) = add_walk [] (Fields (item nd)) nd (rootNode idx)
           in (None, idx\<lparr>rootNode := root',
                          metrics := (metrics idx)\<lparr>Nodes := Nodes (metrics idx) + created,
                                                    Items := Items (metrics idx) + 1\<rparr>\<rparr>))"

subsection \<open>save, allocation and Put\<close>

definition allocate :: "index \<Rightarrow> error option \<times> index" where
  "allocate idx =
     (case Map_Grow (mmapFile idx) PreallocSize of
        (err, m) \<Rightarrow> (err, idx\<lparr>mmapFile := m\<rparr>))"

definition preallocateIfNeeded :: "index \<Rightarrow> error option \<times> index" where
  "preallocateIfNeeded idx =
     (if Map_Size (mmapFile idx) - dataSize idx < PreallocThresh
      then (case allocate idx of
              (Some e, idx') \<Rightarrow> (Some e, idx'\<lparr>allocating := False\<rparr>)
            | (None, idx') \<Rightarrow> (None, idx'\<lparr>allocating := False\<rparr>))
      else (None, idx\<lparr>allocating := False\<rparr>))"

text \<open>binary.LittleEndian for a uint32.\<close>

definition le32 :: "uint32 \<Rightarrow> byte list" where
  "le32 v = [ucast v, ucast (drop_bit 8 v), ucast (drop_bit 16 v), ucast (drop_bit 24 v)]"


text \<open>save takes proto.Marshal for index items as a parameter: the generated code of
  the Item message is not among the source files. The body of save is given in its
  two phases. The first makes room: the forced allocation when the item does not
  fit, then the background pre-allocation; the call \<open>go idx.preallocateIfNeeded()\<close>
  is run at the point where it is started, and its error is dropped as in the
  source. The second, under the add mutex, advances dataSize and writes the size
  and the item bytes.\<close>

definition save_make_room :: "index \<Rightarrow> int \<Rightarrow> error option \<times> index" where
  "save_make_room idx payloadSize =
     (case (if Map_Size (mmapFile idx) - dataSize idx - payloadSize < 0
            then allocate idx else (None, idx)) of
        (Some e, idx1) \<Rightarrow> (Some e, idx1)
      | (None, idx1) \<Rightarrow>
          (None, if \<not> allocating idx1 \<and>
                    Map_Size (mmapFile idx1) - dataSize idx1 - payloadSize < PreallocThresh
                 then snd (preallocateIfNeeded (idx1\<lparr>allocating := True\<rparr>))
                 else idx1))"

definition save_append :: "index \<Rightarrow> byte list \<Rightarrow> int \<Rightarrow> error option \<times> index" where
  "save_append idx2 itemBytes payloadSize =
     (let idx3 = idx2\<lparr>dataSize := dataSize idx2 + payloadSize\<rparr>;
          itemSize = (of_nat (length itemBytes) :: uint32)
      in (case Map_Write (mmapFile idx3) (le32 itemSize) of
            ((n0, Some e), m1) \<Rightarrow> (Some e, idx3\<lparr>mmapFile := m1\<rparr>)
          | ((n0, None), m1) \<Rightarrow>
              (case Map_Write m1 itemBytes of
                 ((n, Some e), m2) \<Rightarrow> (Some e, idx3\<lparr>mmapFile := m2\<rparr>)
               | ((n, None), m2) \<Rightarrow>
                   if (of_nat n :: uint32) \<noteq> itemSize
                   then (Some ErrWrite, idx3\<lparr>mmapFile := m2\<rparr>)
                   else (None, idx3\<lparr>mmapFile := m2\<rparr>))))"

definition save :: "(Item \<Rightarrow> error + byte list) \<Rightarrow> index \<Rightarrow> node \<Rightarrow> error option \<times> index" where
  "save marshal idx nd =
     (case marshal (item nd) of
        Inl e \<Rightarrow> (Some e, idx)
      | Inr itemBytes \<Rightarrow>
          let payloadSize = int (length itemBytes) + ItemHeaderSize in
          (case save_make_room idx payloadSize of
             (Some e, idx1) \<Rightarrow> (Some e, idx1)
           | (None, idx2) \<Rightarrow> save_append idx2 itemBytes payloadSize))"

definition Put :: "(Item \<Rightarrow> error + byte list) \<Rightarrow> index \<Rightarrow> string list \<Rightarrow> uint32
                     \<Rightarrow> error option \<times> index" where
  "Put marshal idx flds v =
     (if ROnly idx then (Some ErrWrite, idx)
      else if list_ex (\<lambda>f. f = []) flds then (Some ErrNoWild, idx)
      else (case One idx flds of
              (res, idx1) \<Rightarrow>
                if res \<noteq> Inl ErrNoItem then (Some ErrExists, idx1)
                else let nd = Node (Item flds v) [] in
                  (case save marshal idx1 nd of
                     (Some e, idx2) \<Rightarrow> (Some e, idx2)
                   | (None, idx2) \<Rightarrow>
                       (case add idx2 nd of
                          (Some e, idx3) \<Rightarrow> (Some e, idx3)
                        | (None, idx3) \<Rightarrow>
                            (None, idx3\<lparr>metrics :=
                               (metrics idx3)\<lparr>PutOps := PutOps (metrics idx3) + 1\<rparr>\<rparr>)))))"

subsection \<open>load and New\<close>






subsection \<open>Callers, sample inputs and notions used in the statements\<close>


text \<open>What One reports for a list of fields, read off the trie: the value of the node
  reached, unless the walk fails or the node holds NoValue.\<close>

definition lookup :: "node \<Rightarrow> string list \<Rightarrow> uint32 option" where
  "lookup root gs = (case walk root gs of Inl e \<Rightarrow> None
                     | Inr n \<Rightarrow> if Val (item n) = NoValue then None else Some (Val (item n)))"


text \<open>The index \<open>idx'\<close> is \<open>idx\<close> with zero bytes appended to its map (and possibly
  another allocating flag).\<close>

definition grown :: "index \<Rightarrow> index \<Rightarrow> bool" where
  "grown idx idx' \<longleftrightarrow>
     (\<exists>g. mbytes (mmapFile idx') = mbytes (mmapFile idx) @ replicate g 0) \<and>
     moff (mmapFile idx') = moff (mmapFile idx) \<and>
     wfail (mmapFile idx') = wfail (mmapFile idx) \<and>
     gfail (mmapFile idx') = gfail (mmapFile idx) \<and>
     rootNode idx' = rootNode idx \<and> ROnly idx' = ROnly idx \<and>
     dataSize idx' = dataSize idx \<and> metrics idx' = metrics idx"





text \<open>Sample inputs. \<open>fresh_index\<close> is what New returns for an empty file opened for
  writing; \<open>faulty_index\<close> is the same index on a map whose writes fail. The sample
  codec maps every item to the given bytes and back; the statements below use it on
  one item only.\<close>

definition fresh_index :: index where
  "fresh_index = \<lparr>ROnly = False, rootNode = Node (Item [] 0) [],
       mmapFile = \<lparr>mbytes = replicate 26214400 0, moff = 0, wfail = False, gfail = False\<rparr>,
       dataSize = 0, allocating = False,
       metrics = \<lparr>PutOps = 0, GetOps = 0, OneOps = 0, Nodes = 0, Items = 0\<rparr>\<rparr>"

definition faulty_index :: index where
  "faulty_index = fresh_index\<lparr>mmapFile := (mmapFile fresh_index)\<lparr>wfail := True\<rparr>\<rparr>"

definition const_marshal :: "byte list \<Rightarrow> Item \<Rightarrow> error + byte list" where
  "const_marshal bs it = Inr bs"



section \<open>The database (package kadiyadb)\<close>

subsection \<open>Integers, slices and strings of Go\<close>

text \<open>An int64 is modelled as an integer, and every addition, subtraction and
  multiplication of the source is followed by the wrap-around of 64-bit two's
  complement. The division and the remainder of Go truncate towards zero; a zero
  divisor panics, which the callers below test before they divide.\<close>

definition int64 :: "int \<Rightarrow> int" where
  "int64 x = (x + 2 ^ 63) mod 2 ^ 64 - 2 ^ 63"

definition quo64 :: "int \<Rightarrow> int \<Rightarrow> int" where
  "quo64 a b = int64 (sgn a * sgn b * (\<bar>a\<bar> div \<bar>b\<bar>))"

definition rem64 :: "int \<Rightarrow> int \<Rightarrow> int" where
  "rem64 a b = a - sgn a * sgn b * (\<bar>a\<bar> div \<bar>b\<bar>) * b"

definition is_panic :: "error \<Rightarrow> bool" where
  "is_panic e = (e = PanicIndexOutOfRange \<or> e = PanicSliceBounds \<or> e = PanicDivideByZero
                 \<or> e = PanicMakeSlice \<or> e = PanicCloseOfClosedChannel)"

text \<open>A payload is a \<open>[]byte\<close>; \<open>None\<close> is the nil slice, the value of the entries
  of a fresh \<open>[][]byte\<close>.\<close>

type_synonym payload = "byte list option"

text \<open>\<open>copy(dst[lo:hi], src)\<close>: the slice expression panics unless
  \<open>0 \<le> lo \<le> hi \<le> cap(dst)\<close>; copy overwrites as many elements as the shorter of
  the two slices has.\<close>

definition copy_into :: "'a list \<Rightarrow> int \<Rightarrow> int \<Rightarrow> 'a list \<Rightarrow> error + 'a list" where
  "copy_into dst lo hi src =
     (if lo < 0 \<or> hi < lo \<or> int (length dst) < hi then Inl PanicSliceBounds
      else let n = min (nat (hi - lo)) (length src)
           in Inr (take (nat lo) dst @ take n src @ drop (nat lo + n) dst))"

text \<open>\<open>strings.Join\<close>, and a Go map with string keys as an association list.\<close>

fun Join :: "string list \<Rightarrow> string \<Rightarrow> string" where
  "Join [] sep = []"
| "Join [x] sep = x"
| "Join (x # y # ys) sep = x @ sep @ Join (y # ys) sep"

fun map_put :: "string \<Rightarrow> 'v \<Rightarrow> (string \<times> 'v) list \<Rightarrow> (string \<times> 'v) list" where
  "map_put k v [] = [(k, v)]"
| "map_put k v ((k', v') # m) = (if k = k' then (k, v) # m else (k', v') # map_put k v m)"

subsection \<open>Metadata, epochs and caches\<close>

record Metadata =
  Path :: string
  Resolution :: int
  Retention :: int
  Duration :: int
  PayloadSize :: uint32
  SegmentSize :: uint32
  MaxROEpochs :: uint32
  MaxRWEpochs :: uint32

record EpochOptions =
  Path_eo :: string
  PSize :: uint32
  RSize :: uint32
  SSize :: uint32
  ROnly_eo :: bool

definition EpochPrefix :: string where
  "EpochPrefix = ''epoch_''"

text \<open>The type Epoch with NewEpoch and its methods is not in src, and neither are the
  functions of the standard library and of go-tools that the database calls. They are
  parameters: an epoch is a value of the type \<open>'e\<close>, and a query of an epoch is a
  function of the handle. The result of \<open>Epoch.Get\<close>, a Go map from item pointers to
  series, is the list of its entries in the order in which \<open>range\<close> visits them.\<close>

record 'e Env =
  NewEpoch :: "EpochOptions \<Rightarrow> error + 'e"
  Epoch_One :: "'e \<Rightarrow> uint32 \<Rightarrow> uint32 \<Rightarrow> string list \<Rightarrow> error + payload list"
  Epoch_Get :: "'e \<Rightarrow> uint32 \<Rightarrow> uint32 \<Rightarrow> string list \<Rightarrow> error + (Item \<times> payload list) list"
  Epoch_Close :: "'e \<Rightarrow> error option"
  Itoa :: "int \<Rightarrow> string"
  path_Join :: "string \<Rightarrow> string \<Rightarrow> string"
  ParseInt :: "string \<Rightarrow> error + int"
  RemoveAll :: "string \<Rightarrow> error option"

text \<open>Modelled from the spec: the type Cache (NewCache, Get, Add, Del, Purge) is not in
  src. It is a mapping from int64 keys to epochs, bounded by a capacity, kept in the
  order of use with the most recently used entry first. Get returns the handle and
  moves the entry to the front. Add inserts at the front; if that exceeds the
  capacity, the least recently used entry is removed. Del removes an entry and
  returns its handle. Purge empties the cache. What the eviction callback does to
  the evicted epoch (it closes it) is outside this model.\<close>

record 'e Cache =
  entries :: "(int \<times> 'e) list"
  capacity :: nat

definition NewCache :: "nat \<Rightarrow> 'e Cache" where
  "NewCache n = \<lparr>entries = [], capacity = n\<rparr>"

definition Cache_Get :: "int \<Rightarrow> 'e Cache \<Rightarrow> 'e option \<times> 'e Cache" where
  "Cache_Get k c =
     (case map_of (entries c) k of
        None \<Rightarrow> (None, c)
      | Some v \<Rightarrow> (Some v, c\<lparr>entries := (k, v) # filter (\<lambda>p. fst p \<noteq> k) (entries c)\<rparr>))"

definition Cache_Add :: "int \<Rightarrow> 'e \<Rightarrow> 'e Cache \<Rightarrow> 'e Cache" where
  "Cache_Add k v c =
     (let es = (k, v) # filter (\<lambda>p. fst p \<noteq> k) (entries c)
      in c\<lparr>entries := (if capacity c < length es then butlast es else es)\<rparr>)"

definition Cache_Del :: "int \<Rightarrow> 'e Cache \<Rightarrow> 'e option \<times> 'e Cache" where
  "Cache_Del k c = (map_of (entries c) k, c\<lparr>entries := filter (\<lambda>p. fst p \<noteq> k) (entries c)\<rparr>)"

definition Cache_Purge :: "'e Cache \<Rightarrow> 'e Cache" where
  "Cache_Purge c = c\<lparr>entries := []\<rparr>"

text \<open>The database, with what it reads of its environment: \<open>vnow\<close> is the reading of
  \<open>vtimer.Now()\<close>, \<open>dir\<close> what \<open>ioutil.ReadDir\<close> returns for the directory of the database (the names
  in it, or an error, \<open>ErrNotExist\<close> when there is no such directory), \<open>mdstore_fails\<close> whether closing
  the metadata store fails. \<open>closed\<close> is true once the channel \<open>closed\<close> is closed.\<close>

record 'e database =
  metadata :: Metadata
  roepochs :: "'e Cache"
  rwepochs :: "'e Cache"
  recovery :: bool
  closed :: bool
  vnow :: int
  dir :: "error + string list"
  mdstore_fails :: bool

subsection \<open>getEpoch\<close>

definition getEpoch :: "'e Env \<Rightarrow> 'e database \<Rightarrow> int \<Rightarrow> (error + 'e) \<times> 'e database" where
  "getEpoch env db ts0 =
     (let md = metadata db in
      if Duration md = 0 then (Inl PanicDivideByZero, db)
      else
        let ts = int64 (ts0 - rem64 ts0 (Duration md));
            now = int64 (vnow db - rem64 (vnow db) (Duration md));
            min = int64 (now - int64 (int (unat (MaxRWEpochs md - 1)) * Duration md));
            max = int64 (now + Duration md)
        in
        if ts \<ge> max then (Inl ErrFuture, db)
        else
          let ro = (if recovery db then False else ts < min);
              got = (if ro then Cache_Get ts (roepochs db) else Cache_Get ts (rwepochs db));
              db1 = (if ro then db\<lparr>roepochs := snd got\<rparr> else db\<lparr>rwepochs := snd got\<rparr>)
          in
          case fst got of
            Some epo \<Rightarrow> (Inr epo, db1)
          | None \<Rightarrow>
              if Resolution md = 0 then (Inl PanicDivideByZero, db1)
              else
                let payloadCount = (of_int (quo64 (Duration md) (Resolution md)) :: uint32);
                    istr = Itoa env ts;
                    tpath = path_Join env (Path md) (EpochPrefix @ istr);
                    options = \<lparr>Path_eo = tpath, PSize = PayloadSize md, RSize = payloadCount,
                               SSize = SegmentSize md, ROnly_eo = ro\<rparr>
                in
                (case NewEpoch env options of
                   Inl err \<Rightarrow> (Inl err, db1)
                 | Inr epo \<Rightarrow>
                     (Inr epo,
                      if ro then db1\<lparr>roepochs := Cache_Add ts epo (roepochs db1)\<rparr>
                      else db1\<lparr>rwepochs := Cache_Add ts epo (rwepochs db1)\<rparr>)))"

subsection \<open>Range reads\<close>

text \<open>The loop over the epochs of a range, \<open>for ts := epoFirst; ts <= epoLast; ts += dur\<close>.
  With the wrap-around of \<open>ts += dur\<close> the loop need not end, so it takes fuel; \<open>None\<close>
  is a run that has not returned when the fuel is used up. An error of getEpoch or of
  the epoch is logged and the loop continues with the next epoch; a panic ends the
  call.\<close>

fun One_loop :: "'e Env \<Rightarrow> nat \<Rightarrow> int \<Rightarrow> int \<Rightarrow> string list \<Rightarrow> int \<Rightarrow> int \<Rightarrow> int
      \<Rightarrow> payload list \<Rightarrow> 'e database \<Rightarrow> ((error + payload list) \<times> 'e database) option" where
  "One_loop env 0 start end' flds epoFirst epoLast ts out db = None"
| "One_loop env (Suc n) start end' flds epoFirst epoLast ts out db =
     (let dur = Duration (metadata db); res = Resolution (metadata db) in
      if \<not> ts \<le> epoLast then Some (Inr out, db)
      else
        case getEpoch env db ts of
          (Inl err, db1) \<Rightarrow>
            if is_panic err then Some (Inl err, db1)
            else One_loop env n start end' flds epoFirst epoLast (int64 (ts + dur)) out db1
        | (Inr epo, db1) \<Rightarrow>
            let trmStart = (if ts = epoFirst then start else ts);
                trmEnd = (if ts = epoLast then end' else int64 (ts + dur));
                numPoints = quo64 (int64 (trmEnd - trmStart)) res;
                startPos = (of_int (quo64 (rem64 trmStart dur) res) :: uint32);
                endPos = startPos + of_int numPoints
            in
            (case Epoch_One env epo startPos endPos flds of
               Inl err \<Rightarrow>
                 if is_panic err then Some (Inl err, db1)
                 else One_loop env n start end' flds epoFirst epoLast (int64 (ts + dur)) out db1
             | Inr result \<Rightarrow>
                 let recStart = quo64 (int64 (trmStart - start)) res;
                     recEnd = quo64 (int64 (trmEnd - start)) res
                 in
                 (case copy_into out recStart recEnd result of
                    Inl err \<Rightarrow> Some (Inl err, db1)
                  | Inr out' \<Rightarrow>
                      One_loop env n start end' flds epoFirst epoLast (int64 (ts + dur)) out' db1)))"

definition db_One :: "'e Env \<Rightarrow> nat \<Rightarrow> 'e database \<Rightarrow> int \<Rightarrow> int \<Rightarrow> string list
      \<Rightarrow> ((error + payload list) \<times> 'e database) option" where
  "db_One env fuel db start0 end0 flds =
     (let dur = Duration (metadata db); res = Resolution (metadata db) in
      if res = 0 then Some (Inl PanicDivideByZero, db)
      else
        let start = int64 (start0 - rem64 start0 res);
            end' = int64 (end0 - rem64 end0 res)
        in
        if end' \<le> start then Some (Inl ErrRange, db)
        else if dur = 0 then Some (Inl PanicDivideByZero, db)
        else
          let epoFirst = int64 (start - rem64 start dur);
              epoLast = int64 (end' - rem64 end' dur);
              pcount = quo64 (int64 (end' - start)) res
          in
          if pcount < 0 then Some (Inl PanicMakeSlice, db)
          else One_loop env fuel start end' flds epoFirst epoLast epoFirst
                 (replicate (nat pcount) None) db)"

text \<open>The body of \<open>for item, points := range result\<close> in Get: \<open>tmpPoints\<close> and \<open>tmpFields\<close>
  are keyed by the fields of the item joined with \<open>-\<close>; the slice \<open>set\<close> of the source
  is \<open>set0\<close> here, and \<open>set1\<close> after the copy. A key that is not yet in
  \<open>tmpPoints\<close> gets a series of \<open>pointCount\<close> payloads of \<open>PayloadSize\<close> zero bytes; the
  points of the epoch are then copied into the series of the key.\<close>

fun Get_items :: "int \<Rightarrow> uint32 \<Rightarrow> int \<Rightarrow> int \<Rightarrow> (Item \<times> payload list) list
      \<Rightarrow> (string \<times> payload list) list \<Rightarrow> (string \<times> string list) list
      \<Rightarrow> error + (string \<times> payload list) list \<times> (string \<times> string list) list" where
  "Get_items pointCount psize recStart recEnd [] tmpPoints tmpFields = Inr (tmpPoints, tmpFields)"
| "Get_items pointCount psize recStart recEnd ((it, points) # rest) tmpPoints tmpFields =
     (let key = Join (Fields it) ''-'' in
      case map_of tmpPoints key of
        Some set0 \<Rightarrow>
          (case copy_into set0 recStart recEnd points of
             Inl err \<Rightarrow> Inl err
           | Inr set1 \<Rightarrow>
               Get_items pointCount psize recStart recEnd rest (map_put key set1 tmpPoints) tmpFields)
      | None \<Rightarrow>
          if pointCount < 0 then Inl PanicMakeSlice
          else
            let set0 = replicate (nat pointCount) (Some (replicate (unat psize) 0)) in
            (case copy_into set0 recStart recEnd points of
               Inl err \<Rightarrow> Inl err
             | Inr set1 \<Rightarrow>
                 Get_items pointCount psize recStart recEnd rest (map_put key set1 tmpPoints)
                   (map_put key (Fields it) tmpFields)))"

fun Get_loop :: "'e Env \<Rightarrow> nat \<Rightarrow> int \<Rightarrow> int \<Rightarrow> string list \<Rightarrow> int \<Rightarrow> int \<Rightarrow> int \<Rightarrow> int
      \<Rightarrow> (string \<times> payload list) list \<Rightarrow> (string \<times> string list) list \<Rightarrow> 'e database
      \<Rightarrow> ((error + (string \<times> payload list) list \<times> (string \<times> string list) list) \<times> 'e database) option" where
  "Get_loop env 0 start end' flds epoFirst epoLast pointCount ts tmpPoints tmpFields db = None"
| "Get_loop env (Suc n) start end' flds epoFirst epoLast pointCount ts tmpPoints tmpFields db =
     (let dur = Duration (metadata db); res = Resolution (metadata db) in
      if \<not> ts \<le> epoLast then Some (Inr (tmpPoints, tmpFields), db)
      else
        case getEpoch env db ts of
          (Inl err, db1) \<Rightarrow>
            if is_panic err then Some (Inl err, db1)
            else Get_loop env n start end' flds epoFirst epoLast pointCount (int64 (ts + dur))
                   tmpPoints tmpFields db1
        | (Inr epo, db1) \<Rightarrow>
            let trmStart = (if ts = epoFirst then start else ts);
                trmEnd = (if ts = epoLast then end' else int64 (ts + dur));
                numPoints = (of_int (quo64 (int64 (trmEnd - trmStart)) res) :: uint32);
                startPos = (of_int (quo64 (rem64 trmStart dur) res) :: uint32);
                endPos = startPos + numPoints
            in
            (case Epoch_Get env epo startPos endPos flds of
               Inl err \<Rightarrow>
                 if is_panic err then Some (Inl err, db1)
                 else Get_loop env n start end' flds epoFirst epoLast pointCount (int64 (ts + dur))
                        tmpPoints tmpFields db1
             | Inr result \<Rightarrow>
                 let recStart = quo64 (int64 (trmStart - start)) res;
                     recEnd = quo64 (int64 (trmEnd - start)) res
                 in
                 (case Get_items pointCount (PayloadSize (metadata db1)) recStart recEnd result
                         tmpPoints tmpFields of
                    Inl err \<Rightarrow> Some (Inl err, db1)
                  | Inr (tmpPoints', tmpFields') \<Rightarrow>
                      Get_loop env n start end' flds epoFirst epoLast pointCount (int64 (ts + dur))
                        tmpPoints' tmpFields' db1)))"

text \<open>The result of Get, a Go map keyed by the pointers of fresh items, is the list of
  its entries: one for every key of \<open>tmpFields\<close>.\<close>

definition db_Get :: "'e Env \<Rightarrow> nat \<Rightarrow> 'e database \<Rightarrow> int \<Rightarrow> int \<Rightarrow> string list
      \<Rightarrow> ((error + (Item \<times> payload list) list) \<times> 'e database) option" where
  "db_Get env fuel db start0 end0 flds =
     (let dur = Duration (metadata db); res = Resolution (metadata db) in
      if res = 0 then Some (Inl PanicDivideByZero, db)
      else
        let start = int64 (start0 - rem64 start0 res);
            end' = int64 (end0 - rem64 end0 res)
        in
        if end' \<le> start then Some (Inl ErrRange, db)
        else if dur = 0 then Some (Inl PanicDivideByZero, db)
        else
          let epoFirst = int64 (start - rem64 start dur);
              epoLast = int64 (end' - rem64 end' dur);
              pointCount = quo64 (int64 (end' - start)) res
          in
          case Get_loop env fuel start end' flds epoFirst epoLast pointCount epoFirst [] [] db of
            None \<Rightarrow> None
          | Some (Inl err, db1) \<Rightarrow> Some (Inl err, db1)
          | Some (Inr (tmpPoints, tmpFields), db1) \<Rightarrow>
              Some (Inr (map (\<lambda>(key, fs).
                           (Item fs 0, case map_of tmpPoints key of Some set0 \<Rightarrow> set0 | None \<Rightarrow> []))
                         tmpFields), db1))"

subsection \<open>Close and retention\<close>

definition db_Close :: "'e database \<Rightarrow> error option \<times> 'e database" where
  "db_Close db =
     (let db1 = db\<lparr>roepochs := Cache_Purge (roepochs db), rwepochs := Cache_Purge (rwepochs db)\<rparr> in
      if mdstore_fails db1 then (Some ErrExternal, db1)
      else if closed db1 then (Some PanicCloseOfClosedChannel, db1)
      else (None, db1\<lparr>closed := True\<rparr>))"

definition HasPrefix :: "string \<Rightarrow> string \<Rightarrow> bool" where
  "HasPrefix s p = (take (length p) s = p)"

definition TrimPrefix :: "string \<Rightarrow> string \<Rightarrow> string" where
  "TrimPrefix s p = (if HasPrefix s p then drop (length p) s else s)"

text \<open>The body of the loop of expire over the names of the directory: the number of
  removed epochs so far and the database are passed on.\<close>

definition expire_file :: "'e Env \<Rightarrow> int \<Rightarrow> string \<Rightarrow> int \<times> 'e database \<Rightarrow> int \<times> 'e database" where
  "expire_file env ts fname st =
     (let (num, db) = st in
      if \<not> HasPrefix fname EpochPrefix then (num, db)
      else
        case ParseInt env (TrimPrefix fname EpochPrefix) of
          Inl err \<Rightarrow> (num, db)
        | Inr tsInt \<Rightarrow>
            if tsInt > ts then (num, db)
            else
              let r = fst (Cache_Del tsInt (roepochs db));
                  db1 = db\<lparr>roepochs := snd (Cache_Del tsInt (roepochs db))\<rparr>
              in
              if (case r of Some epo \<Rightarrow> Epoch_Close env epo \<noteq> None | None \<Rightarrow> False) then (num, db1)
              else
                (case RemoveAll env (path_Join env (Path (metadata db1)) fname) of
                   Some err \<Rightarrow> (num, db1)
                 | None \<Rightarrow>
                     (num + 1,
                      db1\<lparr>dir := (case dir db1 of Inl e \<Rightarrow> Inl e
                                    | Inr names \<Rightarrow> Inr (filter (\<lambda>x. x \<noteq> fname) names))\<rparr>)))"

definition expire :: "'e Env \<Rightarrow> 'e database \<Rightarrow> (error + int) \<times> 'e database" where
  "expire env db =
     (let md = metadata db; dur = Duration md in
      if dur = 0 then (Inl PanicDivideByZero, db)
      else
        let ts0 = int64 (vnow db - Retention md);
            ts = int64 (ts0 - rem64 ts0 dur)
        in
        case dir db of
          Inl err \<Rightarrow> if err = ErrNotExist then (Inr 0, db) else (Inl err, db)
        | Inr files \<Rightarrow>
            (let (num, db1) = fold (expire_file env ts) files (0, db) in (Inr num, db1)))"

text \<open>The worker enforceRetention runs beside the callers of the database. While it waits
  in its \<open>select\<close> it observes one of two events: the ticker of \<open>time.Tick(RetInterval)\<close>
  fires, or another goroutine calls Close. A receive from the closed channel \<open>closed\<close>
  never waits, and the fresh ticker of an iteration has not fired yet, so with the
  channel closed the \<open>select\<close> takes its first case. That case is a \<open>break\<close>, which
  leaves the \<open>select\<close> and not the enclosing \<open>for\<close>. The loop takes fuel; the result is
  \<open>None\<close> when the worker has not returned (it is waiting, or still iterating when the
  fuel is used up), \<open>Some (Inl e)\<close> when it panics, \<open>Some (Inr db)\<close> when it returns.\<close>

datatype event = Tick | CloseCalled

fun enforceRetention_loop :: "'e Env \<Rightarrow> nat \<Rightarrow> event list \<Rightarrow> 'e database
      \<Rightarrow> (error + 'e database) option" where
  "enforceRetention_loop env 0 evs db = None"
| "enforceRetention_loop env (Suc n) evs db =
     (if closed db then enforceRetention_loop env n evs db
      else
        case evs of
          [] \<Rightarrow> None
        | CloseCalled # evs' \<Rightarrow> enforceRetention_loop env n evs' (snd (db_Close db))
        | Tick # evs' \<Rightarrow>
            (case expire env db of
               (Inl err, db1) \<Rightarrow>
                 if is_panic err then Some (Inl err) else enforceRetention_loop env n evs' db1
             | (Inr num, db1) \<Rightarrow> enforceRetention_loop env n evs' db1))"

definition enforceRetention :: "'e Env \<Rightarrow> nat \<Rightarrow> event list \<Rightarrow> 'e database
      \<Rightarrow> (error + 'e database) option" where
  "enforceRetention env fuel evs db =
     (case expire env db of
        (Inl err, db1) \<Rightarrow>
          if is_panic err then Some (Inl err) else enforceRetention_loop env fuel evs db1
      | (Inr num, db1) \<Rightarrow> enforceRetention_loop env fuel evs db1)"






lemma length_le32 [simp]: "length (le32 v) = 4"
  by (simp add: le32_def)

lemma Map_Write_ok:
  assumes "Map_Write m p = ((n, None), m')"
  shows "n = length p \<and> moff m' = moff m + length p \<and>
         mbytes m' = take (moff m) (mbytes m) @ p @ drop (moff m + length p) (mbytes m) \<and>
         wfail m' = wfail m \<and> gfail m' = gfail m \<and>
         (p = [] \<or> moff m + length p \<le> length (mbytes m))"
proof -
  have nf: "\<not> wfail m" and le: "length p \<le> length (mbytes m) - moff m"
    using assms by (auto simp: Map_Write_def Let_def min_def split: if_splits)
  have "p = [] \<or> moff m + length p \<le> length (mbytes m)"
    using le by (cases p) auto
  moreover have "n = length p \<and> moff m' = moff m + length p \<and>
         mbytes m' = take (moff m) (mbytes m) @ p @ drop (moff m + length p) (mbytes m) \<and>
         wfail m' = wfail m \<and> gfail m' = gfail m"
    using assms nf le by (auto simp: Map_Write_def Let_def min_def split: if_splits)
  ultimately show ?thesis by blast
qed

lemma grown_refl: "grown idx idx"
  unfolding grown_def by (auto intro: exI[of _ 0])

lemma grown_trans: "grown a b \<Longrightarrow> grown b c \<Longrightarrow> grown a c"
  unfolding grown_def
  by (auto simp: replicate_add[symmetric])

lemma grown_allocating: "grown a (b\<lparr>allocating := x\<rparr>) = grown a b"
     "grown (a\<lparr>allocating := x\<rparr>) b = grown a b"
  unfolding grown_def by auto

lemma allocate_grown: "grown idx (snd (allocate idx))"
  unfolding grown_def allocate_def Map_Grow_def
  by (auto split: prod.splits if_splits intro: exI[of _ 0])

lemma preallocateIfNeeded_grown: "grown idx (snd (preallocateIfNeeded idx))"
  using allocate_grown[of idx]
  unfolding preallocateIfNeeded_def
  by (auto split: prod.splits option.splits simp: grown_allocating grown_refl)

lemma save_make_room_grown:
  "save_make_room idx ps = (None, idx2) \<Longrightarrow> grown idx idx2"
  using allocate_grown[of idx]
        preallocateIfNeeded_grown[of "(snd (allocate idx))\<lparr>allocating := True\<rparr>"]
        preallocateIfNeeded_grown[of "idx\<lparr>allocating := True\<rparr>"]
  unfolding save_make_room_def
  by (auto split: if_splits prod.splits option.splits
           simp: grown_refl grown_allocating intro: grown_trans)

lemma save_append_None:
  assumes "save_append idx2 bs ps = (None, idx')"
  shows "rootNode idx' = rootNode idx2 \<and> ROnly idx' = ROnly idx2 \<and> metrics idx' = metrics idx2 \<and>
      dataSize idx' = dataSize idx2 + ps \<and>
      moff (mmapFile idx') = moff (mmapFile idx2) + 4 + length bs \<and>
      moff (mmapFile idx2) + 4 + length bs \<le> length (mbytes (mmapFile idx2)) \<and>
      wfail (mmapFile idx') = wfail (mmapFile idx2) \<and>
      gfail (mmapFile idx') = gfail (mmapFile idx2) \<and>
      mbytes (mmapFile idx') =
        take (moff (mmapFile idx2)) (mbytes (mmapFile idx2))
        @ le32 (of_nat (length bs)) @ bs
        @ drop (moff (mmapFile idx2) + 4 + length bs) (mbytes (mmapFile idx2))"
proof -
  define idx3 where "idx3 = idx2\<lparr>dataSize := dataSize idx2 + ps\<rparr>"
  obtain n0 m1 where w1: "Map_Write (mmapFile idx3) (le32 (of_nat (length bs))) = ((n0, None), m1)"
    using assms unfolding save_append_def idx3_def
    by (auto simp: Let_def split: prod.splits option.splits)
  obtain n m2 where w2: "Map_Write m1 bs = ((n, None), m2)"
    using assms w1 unfolding save_append_def idx3_def
    by (auto simp: Let_def split: prod.splits option.splits if_splits)
  have idx': "idx' = idx3\<lparr>mmapFile := m2\<rparr>"
    using assms w1 w2 unfolding save_append_def idx3_def
    by (auto simp: Let_def split: if_splits)
  note k1 = Map_Write_ok[OF w1] and k2 = Map_Write_ok[OF w2]
  have m3: "mmapFile idx3 = mmapFile idx2" by (simp add: idx3_def)
  let ?B = "mbytes (mmapFile idx2)"
  let ?o = "moff (mmapFile idx2)"
  have fit: "?o + 4 \<le> length ?B" using k1 m3 by (simp add: le32_def)
  have b1: "mbytes m1 = take ?o ?B @ le32 (of_nat (length bs)) @ drop (?o + 4) ?B"
    using k1 m3 by simp
  have o1: "moff m1 = ?o + 4" using k1 m3 by simp
  have fit2: "?o + 4 + length bs \<le> length ?B"
    using k2 o1 fit b1 by (cases "bs = []") auto
  have b2: "mbytes m2 = take ?o ?B @ le32 (of_nat (length bs)) @ bs @ drop (?o + 4 + length bs) ?B"
    using k2 o1 b1 fit by (simp add: min_absorb2 add.commute)
  show ?thesis
    using k1 k2 m3 o1 fit2 b2 idx' by (simp add: idx3_def)
qed

lemma save_None:
  assumes "save marshal idx nd = (None, idx')"
  shows "\<exists>bs g. marshal (item nd) = Inr bs \<and> rootNode idx' = rootNode idx \<and>
      ROnly idx' = ROnly idx \<and> metrics idx' = metrics idx \<and>
      dataSize idx' = dataSize idx + int (length bs) + 4 \<and>
      moff (mmapFile idx') = moff (mmapFile idx) + 4 + length bs \<and>
      moff (mmapFile idx) + 4 + length bs \<le> length (mbytes (mmapFile idx)) + g \<and>
      wfail (mmapFile idx') = wfail (mmapFile idx) \<and>
      gfail (mmapFile idx') = gfail (mmapFile idx) \<and>
      mbytes (mmapFile idx') =
        take (moff (mmapFile idx)) (mbytes (mmapFile idx) @ replicate g 0)
        @ le32 (of_nat (length bs)) @ bs
        @ drop (moff (mmapFile idx) + 4 + length bs) (mbytes (mmapFile idx) @ replicate g 0)"
proof -
  obtain bs where bs: "marshal (item nd) = Inr bs"
    using assms by (cases "marshal (item nd)") (auto simp: save_def)
  obtain idx2 where r: "save_make_room idx (int (length bs) + ItemHeaderSize) = (None, idx2)"
    and ap: "save_append idx2 bs (int (length bs) + ItemHeaderSize) = (None, idx')"
    using assms bs unfolding save_def
    by (auto simp: Let_def split: prod.splits option.splits)
  have g: "grown idx idx2" using r by (rule save_make_room_grown)
  obtain gg where gg: "mbytes (mmapFile idx2) = mbytes (mmapFile idx) @ replicate gg 0"
    using g unfolding grown_def by blast
  show ?thesis
    apply (rule exI[of _ bs], rule exI[of _ gg])
    using bs g gg save_append_None[OF ap]
    by (simp add: grown_def ItemHeaderSize_def)
qed











lemma NoValue_neq_0: "NoValue \<noteq> 0"
  by (simp add: NoValue_def)

lemma One_ErrNoItem:
  assumes "fst (One idx f) = Inl ErrNoItem" "\<not> list_ex (\<lambda>x. x = []) f"
  shows "snd (One idx f) = idx \<and> lookup (rootNode idx) f = None"
  using assms
  by (auto simp: One_def lookup_def split: sum.splits if_splits)






lemma lookup_None_One:
  "lookup (rootNode idx) f = None \<Longrightarrow> isl (fst (One idx f))"
  by (auto simp: lookup_def One_def split: sum.splits if_splits)





lemma le32_1: "le32 1 = [1, 0, 0, 0]"
  by (simp add: le32_def drop_bit_eq_div)


lemma save_Some_root:
  assumes "save marshal idx nd = (Some e, idx2)"
  shows "rootNode idx2 = rootNode idx"
proof (cases "marshal (item nd)")
  case (Inl e')
  then show ?thesis using assms by (simp add: save_def)
next
  case (Inr bs)
  let ?ps = "int (length bs) + ItemHeaderSize"
  obtain r1 i1 where mr: "save_make_room idx ?ps = (r1, i1)" by (cases "save_make_room idx ?ps")
  have g1: "rootNode i1 = rootNode idx"
  proof (cases r1)
    case None
    then show ?thesis using save_make_room_grown[of idx ?ps i1] mr by (simp add: grown_def)
  next
    case (Some e1)
    then show ?thesis using mr allocate_grown[of idx]
      by (auto simp: save_make_room_def grown_def split: if_splits prod.splits option.splits)
  qed
  have ap: "rootNode (snd (save_append i1 bs ?ps)) = rootNode i1"
    by (auto simp: save_append_def Let_def split: prod.splits option.splits)
  show ?thesis
    using assms Inr mr g1 ap
    by (cases r1) (auto simp: save_def Let_def)
qed

lemma save_None_stored:
  assumes "save marshal idx nd = (None, idx2)"
  shows "rootNode idx2 = rootNode idx \<and>
     (\<exists>bs. marshal (item nd) = Inr bs \<and>
        take (4 + length bs) (drop (moff (mmapFile idx)) (mbytes (mmapFile idx2)))
          = le32 (of_nat (length bs)) @ bs)"
proof -
  from save_None[OF assms] obtain bs g where bs: "marshal (item nd) = Inr bs"
    and r2: "rootNode idx2 = rootNode idx"
    and fit: "moff (mmapFile idx) + 4 + length bs \<le> length (mbytes (mmapFile idx)) + g"
    and b2: "mbytes (mmapFile idx2) =
        take (moff (mmapFile idx)) (mbytes (mmapFile idx) @ replicate g 0)
        @ le32 (of_nat (length bs)) @ bs
        @ drop (moff (mmapFile idx) + 4 + length bs) (mbytes (mmapFile idx) @ replicate g 0)"
    by auto
  let ?B = "mbytes (mmapFile idx) @ replicate g 0"
  have l: "length (take (moff (mmapFile idx)) ?B) = moff (mmapFile idx)"
    using fit by simp
  have "drop (moff (mmapFile idx)) (mbytes (mmapFile idx2)) =
        le32 (of_nat (length bs)) @ bs @ drop (moff (mmapFile idx) + 4 + length bs) ?B"
    unfolding b2 using l by (metis append_eq_conv_conj)
  then show ?thesis using bs r2 by auto
qed

lemma save_faulty:
  "save (const_marshal [7]) faulty_index (Node (Item [''a''] 1) []) =
     (Some ErrExternal, faulty_index\<lparr>dataSize := 5\<rparr>)"
  by (simp add: save_def save_make_room_def save_append_def const_marshal_def faulty_index_def
        fresh_index_def Map_Size_def Map_Write_def ItemHeaderSize_def PreallocThresh_def Let_def)

lemma save_fresh:
  "save (const_marshal [7]) fresh_index (Node (Item [''a''] v) []) =
     (None, fresh_index\<lparr>
        mmapFile := \<lparr>mbytes = [1, 0, 0, 0, 7] @ replicate 26214395 0, moff = 5,
                     wfail = False, gfail = False\<rparr>,
        dataSize := 5\<rparr>)"
  by (simp add: save_def save_make_room_def save_append_def const_marshal_def
        fresh_index_def Map_Size_def Map_Write_def ItemHeaderSize_def PreallocThresh_def
        le32_1 Let_def)



section \<open>Properties of the field index\<close>

text \<open>C4. Put on an index opened read-only leaves the index as it is, and the error
  it returns is ErrWrite (the short-write error), not ErrROnly, for every list of
  fields and every value.\<close>

theorem Put_read_only_returns_ErrWrite:
  "Put marshal (idx\<lparr>ROnly := True\<rparr>) flds v = (Some ErrWrite, idx\<lparr>ROnly := True\<rparr>)"
  by (simp add: Put_def)

text \<open>C3. Get with a wildcard followed by a non-empty field panics with an index out
  of range when a collected item has more fields than the query and agrees with the
  query on the positions they share: the query \<open>["", "x"]\<close> on an index holding the
  item \<open>["a", "x", "c"]\<close>.\<close>

theorem Get_filter_index_out_of_range:
  "fst (Get (snd (add (idx\<lparr>rootNode := Node (Item [] 0) []\<rparr>)
                      (Node (Item [''a'', ''x'', ''c''] 1) [])))
            ['''', ''x''])
   = Inl PanicIndexOutOfRange"
  by (simp add: Get_def add_def NoValue_def)

text \<open>C7. Get with the query \<open>["", "x"]\<close> on an index holding the items
  \<open>["a", "x"]\<close> and \<open>["a"]\<close> returns the item \<open>["a"]\<close>, which has no field at the
  filtered depth, and the zero item of the root besides the matching item.\<close>

theorem Get_filter_keeps_short_items:
  "fst (Get (snd (add (snd (add (idx\<lparr>rootNode := Node (Item [] 0) []\<rparr>)
                                (Node (Item [''a'', ''x''] 1) [])))
                      (Node (Item [''a''] 2) [])))
            ['''', ''x''])
   = Inr [Item [] 0, Item [''a''] 2, Item [''a'', ''x''] 1]"
  by (simp add: Get_def add_def NoValue_def)

text \<open>C10. Put is atomic with respect to persistence. On a writable index, for fields
  that are not empty, hold no wildcard and are not yet in the index, Put first runs save,
  which never touches the trie. If save fails, Put returns that error with the index
  save left, so the trie is the one before the call. If save succeeds, the record
  (the length of the encoding in four bytes, then the encoding) stands in the map at
  the cursor the map had before the call, and only then the item is added to that
  trie; the map is not written again.\<close>

theorem Put_persists_before_add:
  assumes "\<not> ROnly idx" and "flds \<noteq> []" and "\<not> list_ex (\<lambda>f. f = []) flds"
    and "fst (One idx flds) = Inl ErrNoItem"
    and "save marshal idx (Node (Item flds v) []) = (r, idx2)"
  shows "rootNode idx2 = rootNode idx \<and>
    (case r of
       Some e \<Rightarrow> Put marshal idx flds v = (Some e, idx2)
     | None \<Rightarrow>
        (\<exists>bs. marshal (Item flds v) = Inr bs \<and>
           take (4 + length bs) (drop (moff (mmapFile idx)) (mbytes (mmapFile idx2)))
             = le32 (of_nat (length bs)) @ bs) \<and>
        fst (Put marshal idx flds v) = None \<and>
        rootNode (snd (Put marshal idx flds v))
          = fst (add_walk [] flds (Node (Item flds v) []) (rootNode idx2)) \<and>
        mmapFile (snd (Put marshal idx flds v)) = mmapFile idx2)"
proof -
  note o = One_ErrNoItem[OF assms(4) assms(3)]
  have one: "One idx flds = (Inl ErrNoItem, idx)" using assms(4) o by (simp add: prod_eq_iff)
  have p: "Put marshal idx flds v =
      (case save marshal idx (Node (Item flds v) []) of
         (Some e, idx2) \<Rightarrow> (Some e, idx2)
       | (None, idx2) \<Rightarrow>
           (case add idx2 (Node (Item flds v) []) of
              (Some e, idx3) \<Rightarrow> (Some e, idx3)
            | (None, idx3) \<Rightarrow>
                (None, idx3\<lparr>metrics := (metrics idx3)\<lparr>PutOps := PutOps (metrics idx3) + 1\<rparr>\<rparr>)))"
    using assms(1,3) one by (simp add: Put_def Let_def)
  show ?thesis
  proof (cases r)
    case (Some e)
    then show ?thesis using assms(5) save_Some_root[of marshal idx _ e idx2] p by simp
  next
    case None
    then have s: "save marshal idx (Node (Item flds v) []) = (None, idx2)" using assms(5) by simp
    from save_None_stored[OF s] show ?thesis
      using None p s assms(2) by (auto simp: add_def split: prod.splits)
  qed
qed

text \<open>The statement at two inputs: on a map whose writes fail Put returns the error
  of the write and the trie is unchanged; on a fresh index it succeeds and adds the
  item.\<close>

theorem Put_persists_before_add_witness:
  "Put (const_marshal [7]) faulty_index [''a''] 1 = (Some ErrExternal, faulty_index\<lparr>dataSize := 5\<rparr>)
   \<and> rootNode (faulty_index\<lparr>dataSize := 5\<rparr>) = rootNode faulty_index
   \<and> fst (Put (const_marshal [7]) fresh_index [''a''] 1) = None
   \<and> rootNode (snd (Put (const_marshal [7]) fresh_index [''a''] 1))
       = Node (Item [] 0) [(''a'', Node (Item [''a''] 1) [])]"
proof -
  have h1: "\<not> ROnly faulty_index" "\<not> ROnly fresh_index"
    by (simp_all add: faulty_index_def fresh_index_def)
  have h2: "[''a''] \<noteq> []" "\<not> list_ex (\<lambda>f. f = []) [''a'']" by simp_all
  have h3: "fst (One faulty_index [''a'']) = Inl ErrNoItem"
           "fst (One fresh_index [''a'']) = Inl ErrNoItem"
    by (simp_all add: One_def faulty_index_def fresh_index_def)
  from Put_persists_before_add[OF h1(1) h2 h3(1) save_faulty]
       Put_persists_before_add[OF h1(2) h2 h3(2) save_fresh[of 1]]
  show ?thesis by (simp add: fresh_index_def)
qed




end
